theory Spec2Isabelle
  imports Complex_Main
begin

section \<open>Client data model (CalculatePage.tsx)\<close>

text \<open>
  A JavaScript number as far as the page inspects it: \<open>NaN\<close>, the two infinities, or a
  finite value. Finite values are exact reals; the rounding of IEEE doubles is not part
  of the model.
\<close>

datatype number = NaN | NegInfinity | Finite real | PosInfinity

text \<open>\<open>isNaN(value)\<close> and \<open>value <= 0\<close> on a number.\<close>

fun isNaN :: "number \<Rightarrow> bool" where
  "isNaN NaN = True"
| "isNaN _ = False"

fun le_zero :: "number \<Rightarrow> bool" where
  "le_zero NaN = False"
| "le_zero NegInfinity = True"
| "le_zero (Finite x) = (x \<le> 0)"
| "le_zero PosInfinity = False"

datatype destination = National | International

text \<open>\<open>interface ShippingFormData\<close>: the four numeric inputs are kept as strings.\<close>

record ShippingFormData =
  length_cm :: string
  width_cm :: string
  height_cm :: string
  weight_kg :: string
  is_express :: bool
  destination :: destination

text \<open>\<open>interface PackageSummary\<close>; every member is optional.\<close>

record Dimensions =
  dim_length_cm :: "number option"
  dim_width_cm :: "number option"
  dim_height_cm :: "number option"

record PackageSummary =
  dimensions :: "Dimensions option"
  summary_weight_kg :: "number option"

text \<open>\<open>interface ApiResponse\<close>; a member marked \<open>?\<close> is an option.\<close>

record ApiResponse =
  success :: bool
  calculation_id :: "string option"
  total_price :: "number option"
  currency :: "string option"
  price_breakdown :: "(string \<times> number) list option"
  alerts :: "string list"
  estimated_delivery :: "string option"
  timestamp :: "string option"
  package_summary :: "PackageSummary option"
  error :: "string option"

text \<open>
  The four \<open>useState\<close> cells of the component. The cell the source calls \<open>error\<close> is
  \<open>errorState\<close> here, since \<open>error\<close> is already the member of \<open>ApiResponse\<close>.
\<close>

record PageState =
  formData :: ShippingFormData
  result :: "ApiResponse option"
  loading :: bool
  errorState :: string

definition initialFormData :: ShippingFormData where
  "initialFormData =
     \<lparr> length_cm = '''', width_cm = '''', height_cm = '''', weight_kg = '''',
       is_express = False, destination = National \<rparr>"

definition initialState :: PageState where
  "initialState =
     \<lparr> formData = initialFormData, result = None, loading = False, errorState = '''' \<rparr>"

subsection \<open>handleReset\<close>

definition handleReset :: "PageState \<Rightarrow> PageState" where
  "handleReset s =
     s\<lparr> formData :=
          \<lparr> length_cm = '''', width_cm = '''', height_cm = '''', weight_kg = '''',
            is_express = False, destination = National \<rparr>,
        result := None,
        errorState := '''' \<rparr>"

subsection \<open>handleSubmit\<close>

text \<open>
  \<open>String.prototype.replace\<close> with a string pattern: only the first occurrence of the
  pattern is replaced. (The replacement text used by the page has no \<open>$\<close> pattern.)
\<close>

fun replace :: "string \<Rightarrow> string \<Rightarrow> string \<Rightarrow> string" where
  "replace [] pat rep = (if pat = [] then rep else [])"
| "replace (c # cs) pat rep =
     (if take (length pat) (c # cs) = pat
      then rep @ drop (length pat) (c # cs)
      else c # replace cs pat rep)"

definition numericFields :: "string list" where
  "numericFields = [''length_cm'', ''width_cm'', ''height_cm'', ''weight_kg'']"

text \<open>
  \<open>formData[field] as string\<close>. Only the four keys of \<open>numericFields\<close> are ever looked
  up; the last branch is never reached from \<open>handleSubmit\<close>.
\<close>

definition formField :: "ShippingFormData \<Rightarrow> string \<Rightarrow> string" where
  "formField fd field =
     (if field = ''length_cm'' then length_cm fd
      else if field = ''width_cm'' then width_cm fd
      else if field = ''height_cm'' then height_cm fd
      else if field = ''weight_kg'' then weight_kg fd
      else [])"

text \<open>
  The \<open>for (const field of numericFields)\<close> loop. \<open>parseFloat\<close> is the JavaScript
  built-in and is a parameter. The result is the message passed to \<open>setError\<close> at the
  early \<open>return\<close>, or \<open>None\<close> when the loop runs to its end.
\<close>

fun validate :: "(string \<Rightarrow> number) \<Rightarrow> ShippingFormData \<Rightarrow> string list \<Rightarrow> string option" where
  "validate parseFloat fd [] = None"
| "validate parseFloat fd (field # rest) =
     (let value = parseFloat (formField fd field) in
      if isNaN value \<or> le_zero value
      then Some (''Please enter a valid positive number for '' @ replace field ''_'' '' '')
      else validate parseFloat fd rest)"

text \<open>The object literal \<open>requestData\<close>, the body of the POST.\<close>

record RequestData =
  req_length_cm :: number
  req_width_cm :: number
  req_height_cm :: number
  req_weight_kg :: number
  req_is_express :: bool
  req_destination :: destination

definition requestData :: "(string \<Rightarrow> number) \<Rightarrow> ShippingFormData \<Rightarrow> RequestData" where
  "requestData parseFloat fd =
     \<lparr> req_length_cm = parseFloat (length_cm fd),
       req_width_cm = parseFloat (width_cm fd),
       req_height_cm = parseFloat (height_cm fd),
       req_weight_kg = parseFloat (weight_kg fd),
       req_is_express = is_express fd,
       req_destination = destination fd \<rparr>"

text \<open>
  A thrown value is an \<open>Error\<close> with its message, or something that is not an
  \<open>instanceof Error\<close>.

  The awaited \<open>response.json()\<close> throws, yields the body, or never settles. A body
  that is not an object (JSON \<open>null\<close>) makes \<open>data.success\<close> or \<open>data.error\<close> throw a
  \<open>TypeError\<close>; it counts as \<open>JsonThrows\<close> with that error.

  The awaited \<open>fetch\<close> rejects, yields a response with its \<open>ok\<close> flag, or never
  settles: the call has no timeout and no abort signal.
\<close>

datatype thrown = Error string | NonError

datatype json_outcome = JsonThrows thrown | JsonBody ApiResponse | JsonNeverSettles

datatype fetch_outcome = Rejected thrown | Response bool json_outcome | NeverSettles

text \<open>Both awaits of the request settle.\<close>

definition settles :: "fetch_outcome \<Rightarrow> bool" where
  "settles outcome =
     (case outcome of
        Rejected t \<Rightarrow> True
      | Response ok body \<Rightarrow>
          (case body of JsonThrows t \<Rightarrow> True | JsonBody data \<Rightarrow> True | JsonNeverSettles \<Rightarrow> False)
      | NeverSettles \<Rightarrow> False)"

text \<open>\<open>data.error || "API request failed"\<close>: undefined and the empty string are falsy.\<close>

definition error_or_default :: "string option \<Rightarrow> string" where
  "error_or_default e =
     (case e of
        None \<Rightarrow> ''API request failed''
      | Some m \<Rightarrow> if m = [] then ''API request failed'' else m)"

text \<open>
  The body of the \<open>try\<close> block: it throws a value, which reaches \<open>catch\<close>, or it
  runs to \<open>setResult(data)\<close>, or it stays suspended at an \<open>await\<close> for ever.
\<close>

datatype try_outcome = Throws thrown | SetsResult ApiResponse | Suspended

definition try_block :: "(RequestData \<Rightarrow> fetch_outcome) \<Rightarrow> RequestData \<Rightarrow> try_outcome" where
  "try_block fetch rd =
     (case fetch rd of
        Rejected t \<Rightarrow> Throws t
      | NeverSettles \<Rightarrow> Suspended
      | Response ok body \<Rightarrow>
          (case body of
             JsonThrows t \<Rightarrow> Throws t
           | JsonNeverSettles \<Rightarrow> Suspended
           | JsonBody data \<Rightarrow>
               if \<not> ok \<or> \<not> success data
               then Throws (Error (error_or_default (error data)))
               else SetsResult data))"

definition catch_message :: "thrown \<Rightarrow> string" where
  "catch_message err =
     (case err of
        Error m \<Rightarrow> m
      | NonError \<Rightarrow> ''An error occurred while calculating shipping'')"

text \<open>
  \<open>handleSubmit\<close> returns the state the handler leaves behind and the list of requests
  it has sent to the API (empty when \<open>fetch\<close> was not called). The state is the one
  after the handler has run to its end; when an \<open>await\<close> never settles, neither
  \<open>catch\<close> nor \<open>finally\<close> is reached and the state is the one set before the request.
\<close>

definition handleSubmit ::
  "(string \<Rightarrow> number) \<Rightarrow> (RequestData \<Rightarrow> fetch_outcome) \<Rightarrow> PageState
     \<Rightarrow> PageState \<times> RequestData list" where
  "handleSubmit parseFloat fetch s =
     (let s1 = s\<lparr> errorState := [], result := None, loading := True \<rparr> in
      case validate parseFloat (formData s) numericFields of
        Some msg \<Rightarrow> (s1\<lparr> errorState := msg, loading := False \<rparr>, [])
      | None \<Rightarrow>
          (let rd = requestData parseFloat (formData s) in
           case try_block fetch rd of
             SetsResult data \<Rightarrow> (s1\<lparr> result := Some data, loading := False \<rparr>, [rd])
           | Throws err \<Rightarrow> (s1\<lparr> errorState := catch_message err, loading := False \<rparr>, [rd])
           | Suspended \<Rightarrow> (s1, [rd])))"

text \<open>A field fails the check of the loop: it parses to \<open>NaN\<close> or to a value \<open>\<le> 0\<close>.\<close>

definition fails_check :: "(string \<Rightarrow> number) \<Rightarrow> ShippingFormData \<Rightarrow> string \<Rightarrow> bool" where
  "fails_check parseFloat fd field =
     (isNaN (parseFloat (formField fd field)) \<or> le_zero (parseFloat (formField fd field)))"

subsection \<open>Strings and numbers in the rendered page\<close>

text \<open>
  \<open>toLowerCase\<close>, \<open>toUpperCase\<close> and \<open>includes\<close> (here \<open>includes_str\<close>), on strings of 8-bit characters: only
  the ASCII letters change case.
\<close>

definition lower_char :: "char \<Rightarrow> char" where
  "lower_char c =
     (case map_of (zip ''ABCDEFGHIJKLMNOPQRSTUVWXYZ'' ''abcdefghijklmnopqrstuvwxyz'') c of
        Some l \<Rightarrow> l
      | None \<Rightarrow> c)"

definition upper_char :: "char \<Rightarrow> char" where
  "upper_char c =
     (case map_of (zip ''abcdefghijklmnopqrstuvwxyz'' ''ABCDEFGHIJKLMNOPQRSTUVWXYZ'') c of
        Some u \<Rightarrow> u
      | None \<Rightarrow> c)"

definition toLowerCase :: "string \<Rightarrow> string" where
  "toLowerCase str = map lower_char str"

definition toUpperCase :: "string \<Rightarrow> string" where
  "toUpperCase str = map upper_char str"

fun includes_str :: "string \<Rightarrow> string \<Rightarrow> bool" where
  "includes_str [] sub = (sub = [])"
| "includes_str (c # cs) sub = (take (length sub) (c # cs) = sub \<or> includes_str cs sub)"

text \<open>The decimal digits of a natural number, most significant first.\<close>

definition digit_char :: "nat \<Rightarrow> char" where
  "digit_char d =
     (if d = 0 then CHR ''0'' else if d = 1 then CHR ''1'' else if d = 2 then CHR ''2''
      else if d = 3 then CHR ''3'' else if d = 4 then CHR ''4'' else if d = 5 then CHR ''5''
      else if d = 6 then CHR ''6'' else if d = 7 then CHR ''7'' else if d = 8 then CHR ''8''
      else CHR ''9'')"

fun digits :: "nat \<Rightarrow> string" where
  "digits n = (if n < 10 then [digit_char n] else digits (n div 10) @ [digit_char (n mod 10)])"

declare digits.simps [simp del]


fun strip_trailing_zeros :: "string \<Rightarrow> string" where
  "strip_trailing_zeros str =
     (if str \<noteq> [] \<and> last str = CHR ''0'' then strip_trailing_zeros (butlast str) else str)"

declare strip_trailing_zeros.simps [simp del]

text \<open>
  \<open>Number::toString\<close> for a finite value of at least \<open>10^21\<close>: exponent notation, a first
  digit, the further significant digits after a dot when there are any, then \<open>e+\<close> and
  the decimal exponent. Every double of that size is an integer, so it is taken on the
  integer part. The digits are those of the exact value, where JavaScript prints the
  shortest digits that read back as the same double.
\<close>

definition exponent_notation :: "nat \<Rightarrow> string" where
  "exponent_notation n =
     (let ds = digits n;
          sig = strip_trailing_zeros ds;
          e = digits (length ds - 1)
      in if length sig = 1 then sig @ ''e+'' @ e
         else hd sig # CHR ''.'' # tl sig @ ''e+'' @ e)"

text \<open>
  \<open>Number.prototype.toFixed(f)\<close> on a value \<open>x \<ge> 0\<close>: from \<open>10^21\<close> on the result is
  \<open>Number::toString\<close>; below, \<open>n\<close> is the integer nearest to \<open>x * 10^f\<close> (the larger of
  two), its digits are padded with zeros to \<open>f + 1\<close> places and the dot goes before the
  last \<open>f\<close>.
\<close>

definition toFixed_abs :: "real \<Rightarrow> nat \<Rightarrow> string" where
  "toFixed_abs x f =
     (if x \<ge> 10 ^ 21 then exponent_notation (nat \<lfloor>x\<rfloor>)
      else
        let n = nat \<lfloor>x * 10 ^ f + 1 / 2\<rfloor>;
            m = digits n
        in if f \<noteq> 0
           then
             (let m' = (if length m \<le> f then replicate (f + 1 - length m) CHR ''0'' @ m else m);
                  k = length m'
              in take (k - f) m' @ ''.'' @ drop (k - f) m')
           else m)"

fun toFixed :: "number \<Rightarrow> nat \<Rightarrow> string" where
  "toFixed NaN f = ''NaN''"
| "toFixed PosInfinity f = ''Infinity''"
| "toFixed NegInfinity f = ''-Infinity''"
| "toFixed (Finite x) f = (if x < 0 then ''-'' @ toFixed_abs (- x) f else toFixed_abs x f)"

subsection \<open>The rendered page\<close>

text \<open>
  A rendered element: its tag or component name, its props, its children. A child that
  is a number is kept as a number (React turns it into text). A JSX expression that
  yields \<open>false\<close>, \<open>null\<close>, \<open>undefined\<close> or the empty string renders nothing, so a
  conditional piece of JSX is a list of zero or one nodes.
\<close>

datatype prop_value = PStr string | PBool bool | PNum nat

datatype node = Text string | NumberChild number | Element string "(string \<times> prop_value) list" "node list"

definition className :: "string \<Rightarrow> string \<times> prop_value" where
  "className c = (''className'', PStr c)"

definition optText :: "string option \<Rightarrow> node list" where
  "optText t = (case t of None \<Rightarrow> [] | Some str \<Rightarrow> if str = [] then [] else [Text str])"

text \<open>\<open>value ?? "-"\<close> as a child.\<close>

definition numberOrDash :: "number option \<Rightarrow> node" where
  "numberOrDash v = (case v of None \<Rightarrow> Text ''-'' | Some n \<Rightarrow> NumberChild n)"

text \<open>The submit button, lines 271 to 289.\<close>

definition submitButton :: "PageState \<Rightarrow> node" where
  "submitButton s =
     Element ''Button''
       [(''variant'', PStr ''primary''), (''type'', PStr ''submit''),
        (''disabled'', PBool (loading s)), className ''flex-grow-1'']
       (if loading s
        then [Element ''Spinner''
                [(''animation'', PStr ''border''), (''size'', PStr ''sm''), className ''me-2''] [],
              Text ''Calculating...'']
        else [Text ''Calculate Shipping Cost''])"

text \<open>\<open>result.total_price?.toFixed(2)\<close>: the text of the price, when there is a price.\<close>

definition priceText :: "ApiResponse \<Rightarrow> string option" where
  "priceText r = map_option (\<lambda>p. toFixed p 2) (total_price r)"

definition priceBlock :: "ApiResponse \<Rightarrow> node" where
  "priceBlock r =
     Element ''div'' [className ''text-center mb-4'']
       [Element ''h2'' [className ''display-5'']
          (optText (priceText r) @ [Text '' ''] @ optText (currency r)),
        Element ''p'' [className ''text-muted'']
          (Text ''Estimated delivery: '' # optText (estimated_delivery r))]"

text \<open>\<open>result.package_summary?.dimensions?.[dim]\<close> for the three keys that are mapped.\<close>

definition dimensionOf :: "PackageSummary \<Rightarrow> string \<Rightarrow> number option" where
  "dimensionOf ps dimKey =
     (case dimensions ps of
        None \<Rightarrow> None
      | Some d \<Rightarrow>
          if dimKey = ''length_cm'' then dim_length_cm d
          else if dimKey = ''width_cm'' then dim_width_cm d
          else if dimKey = ''height_cm'' then dim_height_cm d
          else None)"

definition dimensionCol :: "PackageSummary \<Rightarrow> string \<Rightarrow> node" where
  "dimensionCol ps dimKey =
     Element ''Col'' [(''key'', PStr dimKey)]
       [Element ''div'' [className ''p-2 border rounded'']
          [Element ''div'' [className ''fw-bold'']
             [numberOrDash (dimensionOf ps dimKey), Text '' '', Text ''cm''],
           Element ''small'' [className ''text-muted'']
             [Text (toUpperCase (replace dimKey ''_cm'' []))]]]"

definition packageSummaryBlock :: "ApiResponse \<Rightarrow> node list" where
  "packageSummaryBlock r =
     (case package_summary r of
        None \<Rightarrow> []
      | Some ps \<Rightarrow>
          [Element ''div'' [className ''mb-4'']
             [Element ''h5'' [] [Text ''Package Summary''],
              Element ''Row'' [className ''text-center'']
                (map (dimensionCol ps) [''length_cm'', ''width_cm'', ''height_cm''] @
                 [Element ''Col'' []
                    [Element ''div'' [className ''p-2 border rounded'']
                       [Element ''div'' [className ''fw-bold'']
                          [numberOrDash (summary_weight_kg ps), Text '' kg''],
                        Element ''small'' [className ''text-muted'']
                          [Text ''Weight'']]]])]])"

text \<open>The heading of the alerts, as it stands at lines 348 to 351 and at 354 to 357.\<close>

definition alertsHeading :: node where
  "alertsHeading =
     Element ''h5'' []
       [Element ''ExclamationTriangle'' [className ''me-2 text-warning''] [],
        Text ''Shipping Alerts'']"

text \<open>The callback of \<open>result.alerts.map\<close>: icon and variant depend on the text.\<close>

definition alertItem :: "string \<Rightarrow> nat \<Rightarrow> node" where
  "alertItem alert index =
     (let (icon, variant) =
        (if includes_str (toLowerCase alert) ''heavy'' then (''ExclamationTriangle'', ''warning'')
         else if includes_str (toLowerCase alert) ''package'' then (''BoxSeam'', ''info'')
         else if includes_str (toLowerCase alert) ''international''
              then (''GlobeEuropeAfrica'', ''info'')
         else (''InfoCircle'', ''info''))
      in Element ''Alert''
           [(''key'', PNum index), (''variant'', PStr variant),
            className ''d-flex align-items-center'']
           ([Element icon [className ''me-2''] []] @ optText (Some alert)))"

text \<open>
  Lines 346 to 388: the block guarded by \<open>result.alerts.length > 0\<close>, and inside it,
  after the heading, a second block under the same guard with the heading again and
  the list.
\<close>

definition alertsBlock :: "ApiResponse \<Rightarrow> node list" where
  "alertsBlock r =
     (if length (alerts r) > 0
      then [Element ''div'' [className ''mt-4'']
              (alertsHeading #
               (if length (alerts r) > 0
                then [Element ''div'' [className ''mt-4'']
                        (alertsHeading #
                         map (\<lambda>(alert, index). alertItem alert index)
                           (zip (alerts r) [0 ..< length (alerts r)]))]
                else []))]
      else [])"

definition calculationIdBlock :: "ApiResponse \<Rightarrow> node list" where
  "calculationIdBlock r =
     (case calculation_id r of
        None \<Rightarrow> []
      | Some cid \<Rightarrow>
          if cid = [] then []
          else [Element ''div'' [className ''mt-3 text-end'']
                  [Element ''small'' [className ''text-muted'']
                     [Element ''Hash'' [className ''me-1''] [], Text cid]]])"

text \<open>Lines 298 to 400: the results card, under \<open>result && result.success\<close>.\<close>

definition resultsCard :: "PageState \<Rightarrow> node list" where
  "resultsCard s =
     (case result s of
        None \<Rightarrow> []
      | Some r \<Rightarrow>
          if success r
          then [Element ''Card'' [className ''shadow-sm border-success'']
                  [Element ''Card.Body'' []
                     ([Element ''Card.Title'' [className ''text-success'']
                         [Element ''InfoCircle'' [className ''me-2''] [],
                          Text ''Shipping Calculation Results''],
                       priceBlock r] @
                      packageSummaryBlock r @ alertsBlock r @ calculationIdBlock r)]]
          else [])"

text \<open>How often a given node occurs in a rendered tree.\<close>

fun occurrences :: "node \<Rightarrow> node \<Rightarrow> nat"
  and occurrences_list :: "node \<Rightarrow> node list \<Rightarrow> nat" where
  "occurrences h (Text t) = (if h = Text t then 1 else 0)"
| "occurrences h (NumberChild n) = (if h = NumberChild n then 1 else 0)"
| "occurrences h (Element tag props children) =
     (if h = Element tag props children then 1 else 0) + occurrences_list h children"
| "occurrences_list h [] = 0"
| "occurrences_list h (c # cs) = occurrences h c + occurrences_list h cs"

text \<open>How many elements of a rendered tree have a given tag.\<close>

fun count_tag :: "string \<Rightarrow> node \<Rightarrow> nat"
  and count_tag_list :: "string \<Rightarrow> node list \<Rightarrow> nat" where
  "count_tag t (Text txt) = 0"
| "count_tag t (NumberChild n) = 0"
| "count_tag t (Element tag props children) =
     (if tag = t then 1 else 0) + count_tag_list t children"
| "count_tag_list t [] = 0"
| "count_tag_list t (c # cs) = count_tag t c + count_tag_list t cs"


section \<open>The pricing engine\<close>

text \<open>
  Modelled from the spec: the request the pricing engine receives (section 3,
  ShippingRequest). The engine is the backend behind \<open>/api/calculate\<close>; its code is not
  among the sources, so this section follows sections 3 and 4.1 of the specification.
  Dimensions and weight are the real numbers of the specification.
\<close>

record ShippingRequest =
  sr_length_cm :: real
  sr_width_cm :: real
  sr_height_cm :: real
  sr_weight_kg :: real
  sr_destination :: destination
  sr_is_express :: bool

text \<open>
  Modelled from the spec: the invariant of a valid request, all dimension and weight
  fields strictly positive.
\<close>

definition valid_request :: "ShippingRequest \<Rightarrow> bool" where
  "valid_request r =
     (0 < sr_length_cm r \<and> 0 < sr_width_cm r \<and> 0 < sr_height_cm r \<and> 0 < sr_weight_kg r)"

text \<open>
  Modelled from the spec: the four alerts of step 6. The specification fixes which
  alerts there are and when each is raised, not their wording, so an alert is its kind.
\<close>

datatype alert = HeavyPackage | OversizedDimension | BulkyVolume | CustomsDocumentation

text \<open>
  Modelled from the spec: the choices the specification leaves to the implementer, the
  express surcharge of step 4 (a factor, or a flat amount that is added) and the
  rounding of step 5 (half up or half even).
\<close>

datatype express_rule = Multiply real | AddFlat real

datatype rounding_mode = HalfUp | HalfEven

text \<open>
  Modelled from the spec: the named constants of the engine, which the specification
  calls business configuration: the per-kilogram and the per-volume rate of step 2, the
  two destination multipliers of step 3, the express surcharge, the rounding, the two
  thresholds of step 6 and the currency tag.
\<close>

record PricingConfig =
  per_kg_rate :: real
  per_volume_rate :: real
  national_multiplier :: real
  international_multiplier :: real
  express_surcharge :: express_rule
  rounding :: rounding_mode
  oversized_threshold :: real
  bulky_volume_threshold :: real
  currency_code :: string

text \<open>
  Modelled from the spec: what the specification says of the constants. They are
  rates and multipliers of a price, so none is negative; the international multiplier
  is higher than the national one; the express surcharge does not lower the price.
\<close>

definition valid_config :: "PricingConfig \<Rightarrow> bool" where
  "valid_config c =
     (0 \<le> per_kg_rate c \<and> 0 \<le> per_volume_rate c
      \<and> 0 \<le> national_multiplier c \<and> national_multiplier c < international_multiplier c
      \<and> (case express_surcharge c of Multiply m \<Rightarrow> 1 \<le> m | AddFlat a \<Rightarrow> 0 \<le> a))"

text \<open>
  Modelled from the spec: the result of the engine (section 3, PricingResult); the
  package summary echoes length, width, height and weight.
\<close>

record PricingResult =
  pr_total_price :: real
  pr_currency :: string
  pr_alerts :: "alert list"
  pr_estimated_delivery :: string
  pr_package_summary :: "real \<times> real \<times> real \<times> real"

text \<open>Modelled from the spec: step 1, the volume in cubic centimetres.\<close>

definition volume :: "ShippingRequest \<Rightarrow> real" where
  "volume r = sr_length_cm r * sr_width_cm r * sr_height_cm r"

text \<open>
  Modelled from the spec: step 2, the larger of the weight-based and the volume-based
  charge.
\<close>

definition base_price :: "PricingConfig \<Rightarrow> ShippingRequest \<Rightarrow> real" where
  "base_price c r = max (per_kg_rate c * sr_weight_kg r) (per_volume_rate c * volume r)"

text \<open>Modelled from the spec: step 3, the destination multiplier.\<close>

definition destination_multiplier :: "PricingConfig \<Rightarrow> destination \<Rightarrow> real" where
  "destination_multiplier c d =
     (case d of National \<Rightarrow> national_multiplier c | International \<Rightarrow> international_multiplier c)"

text \<open>Modelled from the spec: step 4, the express surcharge, applied when \<open>is_express\<close>.\<close>

definition apply_express :: "PricingConfig \<Rightarrow> bool \<Rightarrow> real \<Rightarrow> real" where
  "apply_express c express p =
     (if express
      then (case express_surcharge c of Multiply m \<Rightarrow> p * m | AddFlat a \<Rightarrow> p + a)
      else p)"

text \<open>Modelled from the spec: the price of steps 2 to 4, before it is rounded.\<close>

definition unrounded_price :: "PricingConfig \<Rightarrow> ShippingRequest \<Rightarrow> real" where
  "unrounded_price c r =
     apply_express c (sr_is_express r)
       (base_price c r * destination_multiplier c (sr_destination r))"

text \<open>
  Modelled from the spec: step 5, rounding to the nearest integer, a tie going up or to
  the even neighbour, and rounding to two decimal places with it.
\<close>

definition round_nearest :: "rounding_mode \<Rightarrow> real \<Rightarrow> int" where
  "round_nearest mode x =
     (case mode of
        HalfUp \<Rightarrow> \<lfloor>x + 1 / 2\<rfloor>
      | HalfEven \<Rightarrow>
          (let f = \<lfloor>x\<rfloor>; d = x - of_int f
           in if d < 1 / 2 then f
              else if 1 / 2 < d then f + 1
              else if even f then f else f + 1))"

definition round2 :: "rounding_mode \<Rightarrow> real \<Rightarrow> real" where
  "round2 mode x = of_int (round_nearest mode (x * 100)) / 100"

text \<open>
  Modelled from the spec: step 6, the alert rules in their fixed order, each giving no
  alert or one.
\<close>

definition alert_rules :: "PricingConfig \<Rightarrow> ShippingRequest \<Rightarrow> alert list" where
  "alert_rules c r =
     (if sr_weight_kg r > 20 then [HeavyPackage] else []) @
     (if sr_length_cm r > oversized_threshold c \<or> sr_width_cm r > oversized_threshold c
         \<or> sr_height_cm r > oversized_threshold c
      then [OversizedDimension] else []) @
     (if volume r > bulky_volume_threshold c then [BulkyVolume] else []) @
     (if sr_destination r = International then [CustomsDocumentation] else [])"

text \<open>
  Modelled from the spec: step 7, the delivery estimate, a lookup keyed by destination
  and service level, with the four texts the specification gives.
\<close>

fun delivery_estimate :: "destination \<Rightarrow> bool \<Rightarrow> string" where
  "delivery_estimate National False = ''5-7 business days''"
| "delivery_estimate National True = ''2-3 business days''"
| "delivery_estimate International False = ''7-14 business days''"
| "delivery_estimate International True = ''3-5 business days''"

text \<open>Modelled from the spec: step 8, the engine as a whole.\<close>

definition calculate :: "PricingConfig \<Rightarrow> ShippingRequest \<Rightarrow> PricingResult" where
  "calculate c r =
     \<lparr> pr_total_price = round2 (rounding c) (unrounded_price c r),
       pr_currency = currency_code c,
       pr_alerts = alert_rules c r,
       pr_estimated_delivery = delivery_estimate (sr_destination r) (sr_is_express r),
       pr_package_summary = (sr_length_cm r, sr_width_cm r, sr_height_cm r, sr_weight_kg r) \<rparr>"

section \<open>Example values\<close>

text \<open>
  \<open>parseFloat\<close> on the few strings of the examples below; any other string stands for
  text that is not a number.
\<close>

definition example_parseFloat :: "string \<Rightarrow> number" where
  "example_parseFloat str =
     (if str = ''30'' then Finite 30
      else if str = ''20'' then Finite 20
      else if str = ''15'' then Finite 15
      else if str = ''25'' then Finite 25
      else if str = ''-2'' then Finite (- 2)
      else NaN)"

definition example_form :: ShippingFormData where
  "example_form =
     \<lparr> length_cm = ''30'', width_cm = ''20'', height_cm = ''15'', weight_kg = ''25'',
       is_express = True, destination = International \<rparr>"

definition bad_form :: ShippingFormData where
  "bad_form =
     \<lparr> length_cm = ''30'', width_cm = ''-2'', height_cm = ''abc'', weight_kg = ''25'',
       is_express = False, destination = National \<rparr>"

text \<open>The response of the API documentation, and a response that reports a failure.\<close>

definition example_response :: ApiResponse where
  "example_response =
     \<lparr> success = True, calculation_id = None,
       total_price = Some (Finite (171 / 2)), currency = Some ''EUR'',
       price_breakdown = None,
       alerts = [''Heavy package (25kg): special handling may be required'',
                 ''International shipment: customs documentation may be required''],
       estimated_delivery = Some ''3-5 business days'', timestamp = None,
       package_summary = None, error = None \<rparr>"


text \<open>A successful response that carries a price and no alert.\<close>

definition response_with_price :: "real \<Rightarrow> ApiResponse" where
  "response_with_price p =
     \<lparr> success = True, calculation_id = None, total_price = Some (Finite p),
       currency = Some ''EUR'', price_breakdown = None, alerts = [],
       estimated_delivery = None, timestamp = None, package_summary = None,
       error = None \<rparr>"

text \<open>
  A configuration of the engine, the request of the API documentation, and a request
  for a package of \<open>10^21\<close> kilograms.
\<close>

definition example_config :: PricingConfig where
  "example_config =
     \<lparr> per_kg_rate = 1, per_volume_rate = 1 / 5000,
       national_multiplier = 1, international_multiplier = 2,
       express_surcharge = Multiply (3 / 2), rounding = HalfUp,
       oversized_threshold = 150, bulky_volume_threshold = 100000,
       currency_code = ''EUR'' \<rparr>"

definition example_request :: ShippingRequest where
  "example_request =
     \<lparr> sr_length_cm = 30, sr_width_cm = 20, sr_height_cm = 15, sr_weight_kg = 25,
       sr_destination = International, sr_is_express = True \<rparr>"

definition huge_request :: ShippingRequest where
  "huge_request =
     \<lparr> sr_length_cm = 10, sr_width_cm = 10, sr_height_cm = 10, sr_weight_kg = 10 ^ 21,
       sr_destination = National, sr_is_express = False \<rparr>"

section \<open>Properties of the client\<close>

subsection \<open>Validation in handleSubmit\<close>

lemma validate_find:
  "validate parseFloat fd ks =
     map_option (\<lambda>k. ''Please enter a valid positive number for '' @ replace k ''_'' '' '')
       (find (fails_check parseFloat fd) ks)"
  by (induction ks) (simp_all add: fails_check_def Let_def)

lemma find_Some_ex: "k \<in> set ks \<Longrightarrow> P k \<Longrightarrow> \<exists>f. find P ks = Some f"
  by (induction ks) auto

text \<open>
  C1. When at least one of the four numeric fields parses to \<open>NaN\<close> or to a value
  \<open>\<le> 0\<close>, \<open>handleSubmit\<close> sets the error to the message for the first such field in the
  order length_cm, width_cm, height_cm, weight_kg (the field named with its underscore
  turned into a space), sends no request to the API, and leaves the result null.
\<close>

theorem handleSubmit_rejects_invalid:
  assumes "field \<in> set numericFields"
      and "fails_check parseFloat (formData s) field"
  shows "\<exists>f. find (fails_check parseFloat (formData s)) numericFields = Some f
           \<and> errorState (fst (handleSubmit parseFloat fetch s)) =
               ''Please enter a valid positive number for '' @ replace f ''_'' '' ''
           \<and> snd (handleSubmit parseFloat fetch s) = []
           \<and> result (fst (handleSubmit parseFloat fetch s)) = None"
proof -
  from assms obtain f where f: "find (fails_check parseFloat (formData s)) numericFields = Some f"
    using find_Some_ex by fastforce
  then have "validate parseFloat (formData s) numericFields =
      Some (''Please enter a valid positive number for '' @ replace f ''_'' '' '')"
    by (simp add: validate_find)
  then show ?thesis using f by (simp add: handleSubmit_def)
qed

theorem handleSubmit_rejects_invalid_witness:
  "''height_cm'' \<in> set numericFields
   \<and> fails_check example_parseFloat bad_form ''height_cm''
   \<and> find (fails_check example_parseFloat bad_form) numericFields = Some ''width_cm''
   \<and> errorState (fst (handleSubmit example_parseFloat (\<lambda>rd. Response True (JsonBody example_response))
         (initialState\<lparr>formData := bad_form, result := Some example_response\<rparr>))) =
       ''Please enter a valid positive number for width cm''
   \<and> snd (handleSubmit example_parseFloat (\<lambda>rd. Response True (JsonBody example_response))
         (initialState\<lparr>formData := bad_form, result := Some example_response\<rparr>)) = []
   \<and> result (fst (handleSubmit example_parseFloat (\<lambda>rd. Response True (JsonBody example_response))
         (initialState\<lparr>formData := bad_form, result := Some example_response\<rparr>))) = None"
  using handleSubmit_rejects_invalid [of "''height_cm''" example_parseFloat
      "initialState\<lparr>formData := bad_form, result := Some example_response\<rparr>"
      "\<lambda>rd. Response True (JsonBody example_response)"]
  by (simp add: example_parseFloat_def bad_form_def numericFields_def formField_def
      fails_check_def)

subsection \<open>The alerts in the results card\<close>

lemma occurrences_list_append:
  "occurrences_list h (xs @ ys) = occurrences_list h xs + occurrences_list h ys"
  by (induction xs) simp_all

lemma count_tag_list_append:
  "count_tag_list t (xs @ ys) = count_tag_list t xs + count_tag_list t ys"
  by (induction xs) simp_all

lemma alertItem_not_heading: "occurrences alertsHeading (alertItem a i) = 0"
  by (simp add: alertItem_def alertsHeading_def optText_def className_def split: prod.splits)

lemma alertItems_no_heading:
  "occurrences_list alertsHeading (map (\<lambda>(a, i). alertItem a i) xs) = 0"
  by (induction xs) (auto simp: alertItem_not_heading)

lemma alertItem_one_Alert: "count_tag ''Alert'' (alertItem a i) = 1"
  by (simp add: alertItem_def optText_def)

lemma alertItems_Alerts:
  "count_tag_list ''Alert'' (map (\<lambda>(a, i). alertItem a i) xs) = length xs"
  by (induction xs) (auto simp: alertItem_one_Alert)

lemma alertsBlock_structure:
  "alertsBlock r =
     (if alerts r = [] then []
      else [Element ''div'' [className ''mt-4'']
              [alertsHeading,
               Element ''div'' [className ''mt-4'']
                 (alertsHeading #
                  map (\<lambda>(alert, index). alertItem alert index)
                    (zip (alerts r) [0 ..< length (alerts r)]))]])"
  by (simp add: alertsBlock_def)

lemma alertsBlock_headings:
  "occurrences_list alertsHeading (alertsBlock r) = (if alerts r = [] then 0 else 2)"
  by (simp add: alertsBlock_def alertItems_no_heading) (simp add: alertsHeading_def)

lemma alertsBlock_Alerts: "count_tag_list ''Alert'' (alertsBlock r) = length (alerts r)"
  by (simp add: alertsBlock_def alertItems_Alerts) (simp add: alertsHeading_def)

lemma priceBlock_no_heading: "occurrences alertsHeading (priceBlock r) = 0"
  by (simp add: priceBlock_def alertsHeading_def optText_def className_def
      occurrences_list_append split: option.splits)

lemma priceBlock_no_Alert: "count_tag ''Alert'' (priceBlock r) = 0"
  by (simp add: priceBlock_def optText_def count_tag_list_append split: option.splits)

lemma packageSummaryBlock_no_heading:
  "occurrences_list alertsHeading (packageSummaryBlock r) = 0"
  by (simp add: packageSummaryBlock_def dimensionCol_def numberOrDash_def alertsHeading_def
      className_def split: option.splits)

lemma packageSummaryBlock_no_Alert: "count_tag_list ''Alert'' (packageSummaryBlock r) = 0"
  by (simp add: packageSummaryBlock_def dimensionCol_def numberOrDash_def split: option.splits)

lemma calculationIdBlock_no_heading:
  "occurrences_list alertsHeading (calculationIdBlock r) = 0"
  by (simp add: calculationIdBlock_def alertsHeading_def className_def split: option.splits)

lemma calculationIdBlock_no_Alert: "count_tag_list ''Alert'' (calculationIdBlock r) = 0"
  by (simp add: calculationIdBlock_def split: option.splits)

lemma resultsCard_headings:
  assumes "result s = Some r" and "success r"
  shows "occurrences_list alertsHeading (resultsCard s) = (if alerts r = [] then 0 else 2)"
  using assms
  by (simp add: resultsCard_def occurrences_list_append priceBlock_no_heading
        packageSummaryBlock_no_heading calculationIdBlock_no_heading alertsBlock_headings)
     (simp add: alertsHeading_def className_def)

lemma resultsCard_Alerts:
  assumes "result s = Some r" and "success r"
  shows "count_tag_list ''Alert'' (resultsCard s) = length (alerts r)"
  using assms
  by (simp add: resultsCard_def count_tag_list_append priceBlock_no_Alert
        packageSummaryBlock_no_Alert calculationIdBlock_no_Alert alertsBlock_Alerts)

text \<open>
  C2. For a successful result, the block of the alerts is empty when there are no
  alerts; otherwise it is an outer block with the heading (the \<open>h5\<close> with the warning
  icon and the text ``Shipping Alerts'') and, under the same guard, a nested block with
  the heading again and the list of the alerts. So the results card holds the heading
  exactly twice and each alert exactly once: it has as many \<open>Alert\<close> elements as there
  are alerts.
\<close>

theorem alerts_heading_twice_list_once:
  assumes "result s = Some r" and "success r"
  shows "alertsBlock r =
           (if alerts r = [] then []
            else [Element ''div'' [className ''mt-4'']
                    [alertsHeading,
                     Element ''div'' [className ''mt-4'']
                       (alertsHeading #
                        map (\<lambda>(alert, index). alertItem alert index)
                          (zip (alerts r) [0 ..< length (alerts r)]))]])
       \<and> occurrences_list alertsHeading (resultsCard s) = (if alerts r = [] then 0 else 2)
       \<and> count_tag_list ''Alert'' (resultsCard s) = length (alerts r)"
  using alertsBlock_structure [of r] resultsCard_headings [OF assms] resultsCard_Alerts [OF assms]
  by blast

theorem alerts_heading_twice_list_once_witness:
  "result (initialState\<lparr>result := Some example_response\<rparr>) = Some example_response
   \<and> success example_response
   \<and> alerts example_response \<noteq> []
   \<and> occurrences_list alertsHeading
        (resultsCard (initialState\<lparr>result := Some example_response\<rparr>)) = 2
   \<and> count_tag_list ''Alert''
        (resultsCard (initialState\<lparr>result := Some example_response\<rparr>)) = 2
   \<and> success (response_with_price 75)
   \<and> alertsBlock (response_with_price 75) = []
   \<and> occurrences_list alertsHeading
        (resultsCard (initialState\<lparr>result := Some (response_with_price 75)\<rparr>)) = 0"
  using alerts_heading_twice_list_once
      [of "initialState\<lparr>result := Some example_response\<rparr>" example_response]
    alerts_heading_twice_list_once
      [of "initialState\<lparr>result := Some (response_with_price 75)\<rparr>" "response_with_price 75"]
  by (simp add: example_response_def response_with_price_def)

text \<open>
  C2 as far as it says that the list of the alerts is rendered twice does not hold: for
  the response of the API documentation, with its two alerts, the results card has two
  \<open>Alert\<close> elements, not four, and the first alert occurs once.
\<close>

theorem alerts_list_twice_counterexample:
  "result (initialState\<lparr>result := Some example_response\<rparr>) = Some example_response
   \<and> success example_response
   \<and> length (alerts example_response) = 2
   \<and> count_tag_list ''Alert''
        (resultsCard (initialState\<lparr>result := Some example_response\<rparr>)) = 2
   \<and> occurrences_list
        (alertItem ''Heavy package (25kg): special handling may be required'' 0)
        (resultsCard (initialState\<lparr>result := Some example_response\<rparr>)) = 1"
proof -
  let ?s = "initialState\<lparr>result := Some example_response\<rparr>"
  have r: "result ?s = Some example_response" by simp
  have ok: "success example_response" and len: "length (alerts example_response) = 2"
    by (simp_all add: example_response_def)
  have n: "count_tag_list ''Alert'' (resultsCard ?s) = 2"
    using resultsCard_Alerts [OF r ok] len by simp
  have heavy: "alertItem ''Heavy package (25kg): special handling may be required'' 0 =
      Element ''Alert''
        [(''key'', PNum 0), (''variant'', PStr ''warning''),
         className ''d-flex align-items-center'']
        [Element ''ExclamationTriangle'' [className ''me-2''] [],
         Text ''Heavy package (25kg): special handling may be required'']"
    by (simp add: alertItem_def optText_def toLowerCase_def lower_char_def)
  have customs:
    "alertItem ''International shipment: customs documentation may be required'' (Suc 0) =
      Element ''Alert''
        [(''key'', PNum 1), (''variant'', PStr ''info''),
         className ''d-flex align-items-center'']
        [Element ''GlobeEuropeAfrica'' [className ''me-2''] [],
         Text ''International shipment: customs documentation may be required'']"
    by (simp add: alertItem_def optText_def toLowerCase_def lower_char_def)
  have once: "occurrences_list
        (alertItem ''Heavy package (25kg): special handling may be required'' 0)
        (resultsCard ?s) = 1"
    unfolding heavy
    by (simp add: resultsCard_def priceBlock_def packageSummaryBlock_def alertsBlock_def
        calculationIdBlock_def example_response_def optText_def priceText_def
        alertsHeading_def className_def heavy customs upt_rec)
  from r ok len n once show ?thesis by blast
qed

subsection \<open>handleReset\<close>

text \<open>
  C8. From any state, \<open>handleReset\<close> puts the form data back to the value the component
  starts with (the four numeric fields empty, \<open>is_express\<close> false, destination national),
  sets the result to null and the error message to the empty string.
\<close>

theorem handleReset_restores_initial:
  "formData (handleReset s) = formData initialState
   \<and> formData (handleReset s) =
       \<lparr> length_cm = '''', width_cm = '''', height_cm = '''', weight_kg = '''',
         is_express = False, destination = National \<rparr>
   \<and> result (handleReset s) = None
   \<and> errorState (handleReset s) = ''''"
  by (simp add: handleReset_def initialState_def initialFormData_def)

subsection \<open>The response of the API\<close>





subsection \<open>The loading flag\<close>

lemma handleSubmit_loading:
  "loading (fst (handleSubmit parseFloat fetch s)) =
     (validate parseFloat (formData s) numericFields = None
      \<and> \<not> settles (fetch (requestData parseFloat (formData s))))"
  by (simp add: handleSubmit_def try_block_def settles_def Let_def
      split: option.splits fetch_outcome.splits json_outcome.splits)

text \<open>
  C10. \<open>handleSubmit\<close> leaves \<open>loading\<close> true exactly when the form passes the validation
  and the request never settles (the awaited \<open>fetch\<close>, or the awaited reading of the
  body). So every execution that fails the validation, or whose request settles, by a
  result or by an exception, ends with \<open>loading\<close> false and the submit button enabled,
  with its label; when the request never settles, the button stays disabled, with the
  spinner.
\<close>

theorem handleSubmit_clears_loading_when_settled:
  "loading (fst (handleSubmit parseFloat fetch s)) =
     (validate parseFloat (formData s) numericFields = None
      \<and> \<not> settles (fetch (requestData parseFloat (formData s))))
   \<and> submitButton (fst (handleSubmit parseFloat fetch s)) =
       (if validate parseFloat (formData s) numericFields = None
           \<and> \<not> settles (fetch (requestData parseFloat (formData s)))
        then Element ''Button''
               [(''variant'', PStr ''primary''), (''type'', PStr ''submit''),
                (''disabled'', PBool True), className ''flex-grow-1'']
               [Element ''Spinner''
                  [(''animation'', PStr ''border''), (''size'', PStr ''sm''), className ''me-2'']
                  [],
                Text ''Calculating...'']
        else Element ''Button''
               [(''variant'', PStr ''primary''), (''type'', PStr ''submit''),
                (''disabled'', PBool False), className ''flex-grow-1'']
               [Text ''Calculate Shipping Cost''])"
  using handleSubmit_loading [of parseFloat fetch s]
  by (simp add: submitButton_def)

theorem handleSubmit_clears_loading_when_settled_witness:
  "settles (Rejected (Error ''Failed to fetch''))
   \<and> loading (fst (handleSubmit example_parseFloat (\<lambda>rd. Rejected (Error ''Failed to fetch''))
      (initialState\<lparr>formData := example_form, loading := True\<rparr>))) = False
   \<and> settles (Response True (JsonBody example_response))
   \<and> loading (fst (handleSubmit example_parseFloat
      (\<lambda>rd. Response True (JsonBody example_response))
      (initialState\<lparr>formData := example_form\<rparr>))) = False
   \<and> validate example_parseFloat bad_form numericFields \<noteq> None
   \<and> loading (fst (handleSubmit example_parseFloat (\<lambda>rd. NeverSettles)
      (initialState\<lparr>formData := bad_form\<rparr>))) = False"
proof -
  have v: "validate example_parseFloat bad_form numericFields \<noteq> None"
    by (simp add: example_parseFloat_def bad_form_def numericFields_def formField_def)
  show ?thesis
    using v
      handleSubmit_clears_loading_when_settled [of example_parseFloat
        "\<lambda>rd. Rejected (Error ''Failed to fetch'')"
        "initialState\<lparr>formData := example_form, loading := True\<rparr>"]
      handleSubmit_clears_loading_when_settled [of example_parseFloat
        "\<lambda>rd. Response True (JsonBody example_response)"
        "initialState\<lparr>formData := example_form\<rparr>"]
      handleSubmit_clears_loading_when_settled [of example_parseFloat
        "\<lambda>rd. NeverSettles" "initialState\<lparr>formData := bad_form\<rparr>"]
    by (simp add: settles_def)
qed

text \<open>
  C10 for every execution does not hold: when the form is valid and the request never
  settles, \<open>loading\<close> stays true and the submit button stays disabled.
\<close>

theorem handleSubmit_loading_counterexample:
  "validate example_parseFloat example_form numericFields = None
   \<and> loading (fst (handleSubmit example_parseFloat (\<lambda>rd. NeverSettles)
       (initialState\<lparr>formData := example_form\<rparr>))) = True
   \<and> submitButton (fst (handleSubmit example_parseFloat (\<lambda>rd. NeverSettles)
       (initialState\<lparr>formData := example_form\<rparr>))) =
       Element ''Button''
         [(''variant'', PStr ''primary''), (''type'', PStr ''submit''),
          (''disabled'', PBool True), className ''flex-grow-1'']
         [Element ''Spinner''
            [(''animation'', PStr ''border''), (''size'', PStr ''sm''), className ''me-2''] [],
          Text ''Calculating...'']"
proof -
  have v: "validate example_parseFloat example_form numericFields = None"
    by (simp add: example_parseFloat_def example_form_def numericFields_def formField_def)
  then show ?thesis
    by (simp add: handleSubmit_def try_block_def Let_def submitButton_def)
qed

section \<open>Properties of the pricing engine\<close>

subsection \<open>The text the client shows for a price\<close>










subsection \<open>Rounding\<close>

lemma round_nearest_bounds:
  "\<lfloor>x\<rfloor> \<le> round_nearest mode x \<and> round_nearest mode x \<le> \<lfloor>x\<rfloor> + 1"
proof (cases mode)
  case HalfUp
  have "\<lfloor>x\<rfloor> \<le> \<lfloor>x + 1 / 2\<rfloor>" by (rule floor_mono) simp
  moreover have "\<lfloor>x + 1 / 2\<rfloor> \<le> \<lfloor>x + 1\<rfloor>" by (rule floor_mono) simp
  ultimately show ?thesis using HalfUp by (simp add: round_nearest_def)
next
  case HalfEven
  then show ?thesis by (simp add: round_nearest_def Let_def)
qed

lemma round_nearest_mono:
  assumes "x \<le> y"
  shows "round_nearest mode x \<le> round_nearest mode y"
proof (cases "\<lfloor>x\<rfloor> < \<lfloor>y\<rfloor>")
  case True
  have "round_nearest mode x \<le> \<lfloor>x\<rfloor> + 1" using round_nearest_bounds by blast
  also have "\<dots> \<le> \<lfloor>y\<rfloor>" using True by simp
  also have "\<dots> \<le> round_nearest mode y" using round_nearest_bounds by blast
  finally show ?thesis .
next
  case False
  moreover have "\<lfloor>x\<rfloor> \<le> \<lfloor>y\<rfloor>" using assms by (rule floor_mono)
  ultimately have eq: "\<lfloor>x\<rfloor> = \<lfloor>y\<rfloor>" by simp
  show ?thesis
  proof (cases mode)
    case HalfUp
    have "\<lfloor>x + 1 / 2\<rfloor> \<le> \<lfloor>y + 1 / 2\<rfloor>" using assms by (intro floor_mono) simp
    then show ?thesis using HalfUp by (simp add: round_nearest_def)
  next
    case HalfEven
    then show ?thesis using assms eq by (auto simp: round_nearest_def Let_def)
  qed
qed





lemma round2_mono: "x \<le> y \<Longrightarrow> round2 mode x \<le> round2 mode y"
  by (simp add: round2_def round_nearest_mono divide_right_mono)




subsection \<open>The price\<close>


lemma destination_multiplier_nonneg: "valid_config c \<Longrightarrow> 0 \<le> destination_multiplier c d"
  by (cases d) (simp_all add: destination_multiplier_def valid_config_def)


lemma apply_express_mono:
  "valid_config c \<Longrightarrow> p \<le> q \<Longrightarrow> apply_express c e p \<le> apply_express c e q"
  by (auto simp: apply_express_def valid_config_def mult_right_mono split: express_rule.splits)


lemma example_valid:
  "valid_config example_config" "valid_request example_request" "valid_request huge_request"
  by (simp_all add: valid_config_def example_config_def valid_request_def example_request_def
      huge_request_def)






lemma base_price_mono_weight:
  assumes "valid_config c"
      and "sr_length_cm r2 = sr_length_cm r1" and "sr_width_cm r2 = sr_width_cm r1"
      and "sr_height_cm r2 = sr_height_cm r1"
      and "sr_weight_kg r1 \<le> sr_weight_kg r2"
  shows "base_price c r1 \<le> base_price c r2"
proof -
  have "volume r2 = volume r1"
    using assms(2-4) by (simp add: volume_def)
  moreover have "per_kg_rate c * sr_weight_kg r1 \<le> per_kg_rate c * sr_weight_kg r2"
    using assms(1,5) by (simp add: valid_config_def mult_left_mono)
  ultimately show ?thesis
    by (simp add: base_price_def max.coboundedI1 max.coboundedI2)
qed

text \<open>
  C6. Of two valid requests that differ only in the weight, the heavier one is priced
  at least as high as the lighter one.
\<close>

theorem price_monotonic_in_weight:
  assumes "valid_config c" and "valid_request r1" and "valid_request r2"
      and "sr_length_cm r2 = sr_length_cm r1" and "sr_width_cm r2 = sr_width_cm r1"
      and "sr_height_cm r2 = sr_height_cm r1"
      and "sr_destination r2 = sr_destination r1" and "sr_is_express r2 = sr_is_express r1"
      and "sr_weight_kg r1 \<le> sr_weight_kg r2"
  shows "pr_total_price (calculate c r1) \<le> pr_total_price (calculate c r2)"
proof -
  have "base_price c r1 \<le> base_price c r2"
    using assms(1,4,5,6,9) by (rule base_price_mono_weight)
  then have "base_price c r1 * destination_multiplier c (sr_destination r1)
               \<le> base_price c r2 * destination_multiplier c (sr_destination r1)"
    using destination_multiplier_nonneg [OF assms(1)] by (rule mult_right_mono)
  then have "unrounded_price c r1 \<le> unrounded_price c r2"
    using assms(1,7,8) by (simp add: unrounded_price_def apply_express_mono)
  then show ?thesis
    by (simp add: calculate_def round2_mono)
qed

theorem price_monotonic_in_weight_witness:
  "valid_config example_config \<and> valid_request example_request
   \<and> valid_request (example_request\<lparr>sr_weight_kg := 40\<rparr>)
   \<and> sr_weight_kg example_request \<le> sr_weight_kg (example_request\<lparr>sr_weight_kg := 40\<rparr>)
   \<and> pr_total_price (calculate example_config example_request)
       \<le> pr_total_price (calculate example_config (example_request\<lparr>sr_weight_kg := 40\<rparr>))"
  using price_monotonic_in_weight [of example_config example_request
      "example_request\<lparr>sr_weight_kg := 40\<rparr>"]
  by (simp add: example_valid) (simp add: valid_request_def example_request_def)

subsection \<open>Alerts and delivery estimate\<close>

text \<open>
  C3. The alerts of the engine contain the heavy-package alert exactly when the weight
  is above 20 kilograms; at 20 kilograms there is none. (This holds for every request.)
\<close>

theorem heavy_alert_iff_over_20:
  "(HeavyPackage \<in> set (pr_alerts (calculate c r))) = (20 < sr_weight_kg r)"
  by (simp add: calculate_def alert_rules_def)

theorem heavy_alert_iff_over_20_witness:
  "HeavyPackage \<in> set (pr_alerts (calculate example_config example_request))
   \<and> HeavyPackage \<notin> set (pr_alerts (calculate example_config
         (example_request\<lparr>sr_weight_kg := 20\<rparr>)))"
  using heavy_alert_iff_over_20 [of example_config example_request]
    heavy_alert_iff_over_20 [of example_config "example_request\<lparr>sr_weight_kg := 20\<rparr>"]
  by (simp add: example_request_def)

text \<open>
  C4. The alerts of the engine contain the customs-documentation alert exactly when the
  destination is international; a national destination never has it.
\<close>

theorem customs_alert_iff_international:
  "(CustomsDocumentation \<in> set (pr_alerts (calculate c r))) =
     (sr_destination r = International)"
  by (simp add: calculate_def alert_rules_def)

theorem customs_alert_iff_international_witness:
  "CustomsDocumentation \<in> set (pr_alerts (calculate example_config example_request))
   \<and> CustomsDocumentation \<notin> set (pr_alerts (calculate example_config
         (example_request\<lparr>sr_destination := National\<rparr>)))"
  using customs_alert_iff_international [of example_config example_request]
    customs_alert_iff_international
      [of example_config "example_request\<lparr>sr_destination := National\<rparr>"]
  by (simp add: example_request_def)

text \<open>
  C7. The delivery estimate of the engine is the entry of the lookup for the pair of
  destination and service level, whatever the other fields and the constants are; it is
  one of four texts, which are pairwise different, one for each pair.
\<close>

theorem estimated_delivery_by_destination_and_express:
  "pr_estimated_delivery (calculate c r) = delivery_estimate (sr_destination r) (sr_is_express r)
   \<and> pr_estimated_delivery (calculate c r) \<in>
       {''5-7 business days'', ''2-3 business days'', ''7-14 business days'', ''3-5 business days''}
   \<and> [delivery_estimate National False, delivery_estimate National True,
       delivery_estimate International False, delivery_estimate International True] =
      [''5-7 business days'', ''2-3 business days'', ''7-14 business days'', ''3-5 business days'']
   \<and> distinct
       [''5-7 business days'', ''2-3 business days'', ''7-14 business days'', ''3-5 business days'']"
proof -
  have "delivery_estimate d e \<in>
       {''5-7 business days'', ''2-3 business days'', ''7-14 business days'', ''3-5 business days''}"
    for d e
    by (cases d; cases e) simp_all
  then show ?thesis by (simp add: calculate_def)
qed

theorem estimated_delivery_by_destination_and_express_witness:
  "pr_estimated_delivery (calculate example_config example_request) = ''3-5 business days''
   \<and> pr_estimated_delivery (calculate example_config
        (example_request\<lparr>sr_weight_kg := 1, sr_length_cm := 200\<rparr>)) = ''3-5 business days''"
  using estimated_delivery_by_destination_and_express [of example_config example_request]
    estimated_delivery_by_destination_and_express
      [of example_config "example_request\<lparr>sr_weight_kg := 1, sr_length_cm := 200\<rparr>"]
  by (simp add: example_request_def)

end
